theory Spec2Isabelle
  imports Main "HOL-Library.Char_ord" "HOL-Library.List_Lexorder"
begin

section \<open>Values and range points (optimizer/plan/range.go)\<close>

text \<open>
  A range point holds an \<open>interface{}\<close> value: Go's \<open>nil\<close> (SQL NULL), one of the two
  sentinels \<open>MinNotNullVal\<close> and \<open>MaxVal\<close>, or a concrete datum. The range builder itself
  only ever creates \<open>int64(0)\<close> and strings; the other concrete values come from the
  literals of the statement. Strings are byte sequences, as in Go.
\<close>

datatype datum = NilV | MinNotNullVal | MaxVal | IntV int | StrV string

text \<open>
  The errors of the planner: the comparison error of the domain comparator, the four
  base errors of the validator, and \<open>TableNotExists\<close> of package \<open>infoschema\<close>.
\<close>

datatype error =
    ComparisonError
  | ErrOneColumn | ErrRowColumns | ErrSameColumns | ErrMultiWildCard
  | TableNotExists

text \<open>
  Modelled from the spec: \<open>types.Compare\<close> of package \<open>util/types\<close>, the domain
  comparator, which is not part of the sources at hand. It yields a negative number, zero
  or a positive number, and fails with a comparison error when the two concrete values
  are not mutually comparable. Integers compare numerically, strings bytewise.
\<close>

fun Compare :: "datum \<Rightarrow> datum \<Rightarrow> error + int" where
  "Compare (IntV a) (IntV b) = Inr (if a < b then - 1 else if a = b then 0 else 1)"
| "Compare (StrV a) (StrV b) = Inr (if a < b then - 1 else if a = b then 0 else 1)"
| "Compare a b = Inl ComparisonError"

record rangePoint =
  val :: datum
  excl :: bool
  start :: bool

definition equalValueLess :: "rangePoint \<Rightarrow> rangePoint \<Rightarrow> bool" where
  "equalValueLess a b =
     (if start a \<and> start b then \<not> excl a \<and> excl b
      else if start a then \<not> excl b
      else if start b then excl a \<or> excl b
      else excl a \<and> \<not> excl b)"

text \<open>
  \<open>rangePointSorter.Less\<close> on the two points \<open>a = r.points[i]\<close> and \<open>b = r.points[j]\<close>.
  The second component is the assignment to \<open>r.err\<close>: \<open>None\<close> when the field is left as
  it was.
\<close>

definition Less :: "rangePoint \<Rightarrow> rangePoint \<Rightarrow> bool \<times> error option" where
  "Less a b =
     (if val a = NilV \<and> val b = NilV then (equalValueLess a b, None)
      else if val b = NilV then (False, None)
      else if val a = NilV then (True, None)
      else if val a = MinNotNullVal \<and> val b = MinNotNullVal then (equalValueLess a b, None)
      else if val b = MinNotNullVal then (False, None)
      else if val a = MinNotNullVal then (True, None)
      else if val a = MaxVal \<and> val b = MaxVal then (equalValueLess a b, None)
      else if val a = MaxVal then (False, None)
      else if val b = MaxVal then (True, None)
      else (case Compare (val a) (val b) of
              Inl e \<Rightarrow> (True, Some e)
            | Inr n \<Rightarrow> if n = 0 then (equalValueLess a b, None) else (n < 0, None)))"

text \<open>The truth value \<open>Less\<close> returns, without the error it may record.\<close>

definition lessP :: "rangePoint \<Rightarrow> rangePoint \<Rightarrow> bool" where
  "lessP a b = fst (Less a b)"

subsection \<open>Sorting\<close>

text \<open>
  \<open>sort.Sort\<close> belongs to Go's standard library. On a short slice it runs
  \<^verbatim>\<open>for i := a+1; i < b; i++ { for j := i; j > a && Less(j, j-1); j-- { Swap(j, j-1) } }\<close>
  which is modelled here: \<open>insertPoint x done e\<close> moves the point \<open>x\<close> leftwards into
  the already processed prefix as long as \<open>Less\<close> says so. The prefix is kept in reverse
  (its last element first), and \<open>e\<close> is the sorter's \<open>err\<close> field.
\<close>

fun insertPoint ::
  "rangePoint \<Rightarrow> rangePoint list \<Rightarrow> error option \<Rightarrow> rangePoint list \<times> error option" where
  "insertPoint x [] e = ([x], e)"
| "insertPoint x (y # ys) e =
     (case Less x y of (lt, e') \<Rightarrow>
        let e1 = (case e' of None \<Rightarrow> e | Some er \<Rightarrow> Some er) in
        if lt then (case insertPoint x ys e1 of (zs, e2) \<Rightarrow> (y # zs, e2))
        else (x # y # ys, e1))"

fun insertionSort ::
  "rangePoint list \<Rightarrow> rangePoint list \<Rightarrow> error option \<Rightarrow> rangePoint list \<times> error option" where
  "insertionSort [] done e = (rev done, e)"
| "insertionSort (x # xs) done e =
     (case insertPoint x done e of (done', e') \<Rightarrow> insertionSort xs done' e')"

definition sortPoints :: "rangePoint list \<Rightarrow> rangePoint list \<times> error option" where
  "sortPoints ps = insertionSort ps [] None"

subsection \<open>Merging two range-point lists\<close>

record rangeBuilder =
  err :: "error option"

text \<open>
  The sweep of \<open>rangeBuilder.merge\<close> over the sorted points: \<open>n\<close> is \<open>inRangeCount\<close>,
  \<open>req\<close> is \<open>requiredInRangeCount\<close>; the result is what the loop appends to \<open>merged\<close>.
\<close>

fun sweep :: "int \<Rightarrow> int \<Rightarrow> rangePoint list \<Rightarrow> rangePoint list" where
  "sweep req n [] = []"
| "sweep req n (p # ps) =
     (if start p then
        (if n + 1 = req then p # sweep req (n + 1) ps else sweep req (n + 1) ps)
      else
        (if n = req then p # sweep req (n - 1) ps else sweep req (n - 1) ps))"

definition merge ::
  "rangeBuilder \<Rightarrow> rangePoint list \<Rightarrow> rangePoint list \<Rightarrow> bool
     \<Rightarrow> rangePoint list \<times> rangeBuilder" where
  "merge r a b isUnion =
     (case sortPoints (a @ b) of
        (ps, Some e) \<Rightarrow> ([], r\<lparr>err := Some e\<rparr>)
      | (ps, None) \<Rightarrow> (sweep (if isUnion then 1 else 2) 0 ps, r))"

definition intersection ::
  "rangeBuilder \<Rightarrow> rangePoint list \<Rightarrow> rangePoint list \<Rightarrow> rangePoint list \<times> rangeBuilder" where
  "intersection r a b = merge r a b False"

definition unionPoints ::
  "rangeBuilder \<Rightarrow> rangePoint list \<Rightarrow> rangePoint list \<Rightarrow> rangePoint list \<times> rangeBuilder" where
  "unionPoints r a b = merge r a b True"

section \<open>Expressions\<close>

text \<open>
  Modelled from the spec: the expression nodes of package \<open>ast\<close>, whose declarations are
  not part of the sources at hand. Each constructor carries the fields that the planner
  reads, in the order given in the comments. A subquery is kept only as the number of its
  result fields, which is all the validator asks of it.
\<close>

datatype Op =
    AndAnd | OrOr | EQ | NE | LT | LE | GT | GE | NullEQ
  | Plus | Minus | Mul | Div | Mod | IntDiv | LogicXor

datatype ExprNode =
    ValueExpr datum
  | ColumnNameExpr string
  | BinaryOperationExpr Op ExprNode ExprNode            \<comment> \<open>Op, L, R\<close>
  | PatternInExpr bool ExprNode "ExprNode list"         \<comment> \<open>Not, Expr, List\<close>
  | ParenthesesExpr ExprNode
  | BetweenExpr bool ExprNode ExprNode ExprNode         \<comment> \<open>Not, Expr, Left, Right\<close>
  | IsNullExpr bool ExprNode                            \<comment> \<open>Not, Expr\<close>
  | IsTruthExpr bool int ExprNode                       \<comment> \<open>Not, True, Expr\<close>
  | PatternLikeExpr bool ExprNode ExprNode              \<comment> \<open>Not, Expr, Pattern\<close>
  | RowExpr "ExprNode list"
  | SubqueryExpr nat
  | AggregateFuncExpr string "ExprNode list"
  | ParamMarkerExpr
  | UnaryOperationExpr Op ExprNode
  | FuncCallExpr string "ExprNode list"

text \<open>
  \<open>GetValue\<close> returns the value stored in a node. A value expression stores its literal;
  any other node stores what an evaluator has put there, which is nothing (\<open>nil\<close>) while
  the plan is being built.
\<close>

fun GetValue :: "ExprNode \<Rightarrow> datum" where
  "GetValue (ValueExpr v) = v"
| "GetValue e = NilV"

section \<open>The range builder\<close>

text \<open>
  Modelled from the spec: the package variable \<open>fullRange\<close>, declared outside the sources
  at hand; the spec gives the universal range as \<open>[MinNotNull, MaxVal]\<close>.
\<close>

definition fullRange :: "rangePoint list" where
  "fullRange = [\<lparr>val = MinNotNullVal, excl = False, start = True\<rparr>,
                \<lparr>val = MaxVal, excl = False, start = False\<rparr>]"

text \<open>A Go panic is the left summand; the message is the panic's argument.\<close>

type_synonym 'a result = "string + 'a"

text \<open>The comparison part of \<open>buildFromBinop\<close>, below the two recursive branches.\<close>

definition buildFromCompare :: "Op \<Rightarrow> ExprNode \<Rightarrow> ExprNode \<Rightarrow> rangePoint list" where
  "buildFromCompare xop l r =
     (let (v, op) =
            (case l of
               ValueExpr lv \<Rightarrow>
                 (GetValue l,
                  (case xop of GE \<Rightarrow> LE | GT \<Rightarrow> LT | LT \<Rightarrow> GT | LE \<Rightarrow> GE | _ \<Rightarrow> xop))
             | _ \<Rightarrow> (GetValue r, xop))
      in case op of
           EQ \<Rightarrow> [\<lparr>val = v, excl = False, start = True\<rparr>,
                  \<lparr>val = v, excl = False, start = False\<rparr>]
         | NE \<Rightarrow> [\<lparr>val = MinNotNullVal, excl = False, start = True\<rparr>,
                  \<lparr>val = v, excl = True, start = False\<rparr>,
                  \<lparr>val = v, excl = True, start = True\<rparr>,
                  \<lparr>val = MaxVal, excl = False, start = False\<rparr>]
         | LT \<Rightarrow> [\<lparr>val = MinNotNullVal, excl = False, start = True\<rparr>,
                  \<lparr>val = v, excl = True, start = False\<rparr>]
         | LE \<Rightarrow> [\<lparr>val = MinNotNullVal, excl = False, start = True\<rparr>,
                  \<lparr>val = v, excl = False, start = False\<rparr>]
         | GT \<Rightarrow> [\<lparr>val = v, excl = True, start = True\<rparr>,
                  \<lparr>val = MaxVal, excl = False, start = False\<rparr>]
         | GE \<Rightarrow> [\<lparr>val = v, excl = False, start = True\<rparr>,
                  \<lparr>val = MaxVal, excl = False, start = False\<rparr>]
         | _ \<Rightarrow> [])"

fun inPoints :: "ExprNode list \<Rightarrow> rangePoint list" where
  "inPoints [] = []"
| "inPoints (v # vs) =
     \<lparr>val = GetValue v, excl = False, start = True\<rparr>
       # \<lparr>val = GetValue v, excl = False, start = False\<rparr> # inPoints vs"

definition buildFromIn ::
  "rangeBuilder \<Rightarrow> bool \<Rightarrow> ExprNode list \<Rightarrow> (rangePoint list \<times> rangeBuilder) result" where
  "buildFromIn r neg list =
     (if neg then Inl ''Should not happen''
      else (case sortPoints (inPoints list) of
              (ps, Some e) \<Rightarrow> Inr (ps, r\<lparr>err := Some e\<rparr>)
            | (ps, None) \<Rightarrow> Inr (ps, r)))"

definition buildFromBetween :: "bool \<Rightarrow> ExprNode \<Rightarrow> ExprNode \<Rightarrow> rangePoint list" where
  "buildFromBetween neg left right =
     (if neg then
        [\<lparr>val = MinNotNullVal, excl = False, start = True\<rparr>,
         \<lparr>val = GetValue left, excl = True, start = False\<rparr>,
         \<lparr>val = GetValue right, excl = True, start = True\<rparr>,
         \<lparr>val = MaxVal, excl = False, start = False\<rparr>]
      else
        [\<lparr>val = GetValue left, excl = False, start = True\<rparr>,
         \<lparr>val = GetValue right, excl = False, start = False\<rparr>])"

definition buildFromIsNull :: "bool \<Rightarrow> rangePoint list" where
  "buildFromIsNull neg =
     (if neg then
        [\<lparr>val = MinNotNullVal, excl = False, start = True\<rparr>,
         \<lparr>val = MaxVal, excl = False, start = False\<rparr>]
      else
        [\<lparr>val = NilV, excl = False, start = True\<rparr>,
         \<lparr>val = NilV, excl = False, start = False\<rparr>])"

definition buildFromIsTruth :: "bool \<Rightarrow> int \<Rightarrow> rangePoint list" where
  "buildFromIsTruth neg true =
     (if true \<noteq> 0 then
        (if neg then
           [\<lparr>val = NilV, excl = False, start = True\<rparr>,
            \<lparr>val = NilV, excl = False, start = False\<rparr>,
            \<lparr>val = IntV 0, excl = False, start = True\<rparr>,
            \<lparr>val = IntV 0, excl = False, start = False\<rparr>]
         else
           [\<lparr>val = MinNotNullVal, excl = False, start = True\<rparr>,
            \<lparr>val = IntV 0, excl = True, start = False\<rparr>,
            \<lparr>val = IntV 0, excl = True, start = True\<rparr>,
            \<lparr>val = MaxVal, excl = False, start = False\<rparr>])
      else if neg then
        [\<lparr>val = NilV, excl = False, start = True\<rparr>,
         \<lparr>val = IntV 0, excl = True, start = False\<rparr>,
         \<lparr>val = IntV 0, excl = True, start = True\<rparr>,
         \<lparr>val = MaxVal, excl = False, start = False\<rparr>]
      else
        [\<lparr>val = IntV 0, excl = False, start = True\<rparr>,
         \<lparr>val = IntV 0, excl = False, start = False\<rparr>])"

text \<open>
  The first loop of \<open>buildFromPatternLike\<close>: the unescaped literal prefix \<open>lowValue\<close> of
  the pattern and the flag \<open>exclude\<close>.
\<close>

fun unescape :: "string \<Rightarrow> string \<times> bool" where
  "unescape [] = ([], False)"
| "unescape (c # cs) =
     (if c = CHR 0x5C then
        (case cs of
           [] \<Rightarrow> ([CHR 0x5C], False)
         | d # ds \<Rightarrow> (case unescape ds of (low, ex) \<Rightarrow> (d # low, ex)))
      else if c = CHR ''%'' then ([], False)
      else if c = CHR ''.'' then ([], True)
      else (case unescape cs of (low, ex) \<Rightarrow> (c # low, ex)))"

text \<open>
  The second loop: \<open>highValue[i]++\<close> from the last byte towards the first, on the reversed
  byte string. A byte that wraps to zero carries into the byte before it; \<open>None\<close> stands
  for the case that the first byte wrapped too, where the end point becomes \<open>MaxVal\<close>.
\<close>

fun increment :: "string \<Rightarrow> string option" where
  "increment [] = None"
| "increment (c # cs) =
     (let c' = char_of (of_char c + (1::nat)) in
      if c' \<noteq> CHR 0x00 then Some (c' # cs)
      else (case increment cs of None \<Rightarrow> None | Some cs' \<Rightarrow> Some (c' # cs')))"

definition buildFromPatternLike ::
  "bool \<Rightarrow> ExprNode \<Rightarrow> rangePoint list result" where
  "buildFromPatternLike neg pattern =
     (if neg then Inl ''Should not happen''
      else (case GetValue pattern of
              StrV p \<Rightarrow>
                (case unescape p of (lowValue, exclude) \<Rightarrow>
                   if length lowValue = 0 then
                     Inr [\<lparr>val = MinNotNullVal, excl = False, start = True\<rparr>,
                          \<lparr>val = MaxVal, excl = False, start = False\<rparr>]
                   else
                     Inr [\<lparr>val = StrV lowValue, excl = exclude, start = True\<rparr>,
                          \<lparr>val = (case increment (rev lowValue) of
                                     None \<Rightarrow> MaxVal
                                   | Some h \<Rightarrow> StrV (rev h)),
                            excl = True, start = False\<rparr>])
            | _ \<Rightarrow> Inl ''interface conversion: interface is not string''))"

definition buildFromColumnName :: "rangePoint list" where
  "buildFromColumnName =
     [\<lparr>val = MinNotNullVal, excl = False, start = True\<rparr>,
      \<lparr>val = IntV 0, excl = True, start = False\<rparr>,
      \<lparr>val = IntV 0, excl = True, start = True\<rparr>,
      \<lparr>val = MaxVal, excl = False, start = False\<rparr>]"

text \<open>
  \<open>rangeBuilder.build\<close> with \<open>buildFromBinop\<close>. The builder \<open>r\<close> is passed along because
  a failed sort stores its error in \<open>r.err\<close>; Go evaluates the two operands of a merge
  from left to right, and a panic in either ends the call.
\<close>

function (sequential) build :: "rangeBuilder \<Rightarrow> ExprNode \<Rightarrow> (rangePoint list \<times> rangeBuilder) result"
  and buildFromBinop ::
    "rangeBuilder \<Rightarrow> Op \<Rightarrow> ExprNode \<Rightarrow> ExprNode \<Rightarrow> (rangePoint list \<times> rangeBuilder) result"
where
  "build r (BinaryOperationExpr xop l rt) = buildFromBinop r xop l rt"
| "build r (PatternInExpr neg e list) = buildFromIn r neg list"
| "build r (ParenthesesExpr e) = build r e"
| "build r (BetweenExpr neg e left right) = Inr (buildFromBetween neg left right, r)"
| "build r (IsNullExpr neg e) = Inr (buildFromIsNull neg, r)"
| "build r (IsTruthExpr neg true e) = Inr (buildFromIsTruth neg true, r)"
| "build r (PatternLikeExpr neg e pattern) =
     (case buildFromPatternLike neg pattern of Inl p \<Rightarrow> Inl p | Inr ps \<Rightarrow> Inr (ps, r))"
| "build r (ColumnNameExpr n) = Inr (buildFromColumnName, r)"
| "build r (ValueExpr v) = Inr (fullRange, r)"
| "build r (RowExpr vs) = Inr (fullRange, r)"
| "build r (SubqueryExpr n) = Inr (fullRange, r)"
| "build r (AggregateFuncExpr f args) = Inr (fullRange, r)"
| "build r ParamMarkerExpr = Inr (fullRange, r)"
| "build r (UnaryOperationExpr uop e) = Inr (fullRange, r)"
| "build r (FuncCallExpr f args) = Inr (fullRange, r)"
| "buildFromBinop r xop l rt =
     (if xop = OrOr \<or> xop = AndAnd then
        (case build r l of
           Inl p \<Rightarrow> Inl p
         | Inr (a, r1) \<Rightarrow>
             (case build r1 rt of
                Inl p \<Rightarrow> Inl p
              | Inr (b, r2) \<Rightarrow>
                  Inr (if xop = OrOr then unionPoints r2 a b else intersection r2 a b)))
      else Inr (buildFromCompare xop l rt, r))"
  by pat_completeness auto

termination
  by (relation "measure (\<lambda>x. case x of
                   Inl (r, e) \<Rightarrow> 2 * size e
                 | Inr (r, xop, l, rt) \<Rightarrow> 2 * (size l + size rt) + 1)") auto

section \<open>Index ranges\<close>

text \<open>
  Modelled from the spec: the struct \<open>IndexRange\<close> and its method \<open>IsPoint\<close>, declared
  outside the sources at hand. A range is a point iff \<open>LowVal\<close> equals \<open>HighVal\<close>
  componentwise and neither bound is exclusive.
\<close>

record IndexRange =
  LowVal :: "datum list"
  LowExclude :: bool
  HighVal :: "datum list"
  HighExclude :: bool

definition IsPoint :: "IndexRange \<Rightarrow> bool" where
  "IsPoint ir = (LowVal ir = HighVal ir \<and> \<not> LowExclude ir \<and> \<not> HighExclude ir)"

text \<open>
  \<open>appendIndexRange\<close> reads \<open>rangePoints[i]\<close> and \<open>rangePoints[i+1]\<close> for
  \<open>i = 0, 2, 4, ...\<close>; on a list of odd length the last read is out of range and the
  Go runtime panics.
\<close>

fun appendIndexRange :: "IndexRange \<Rightarrow> rangePoint list \<Rightarrow> IndexRange list result" where
  "appendIndexRange origin [] = Inr []"
| "appendIndexRange origin [startPoint] = Inl ''index out of range''"
| "appendIndexRange origin (startPoint # endPoint # rangePoints) =
     (case appendIndexRange origin rangePoints of
        Inl p \<Rightarrow> Inl p
      | Inr newRanges \<Rightarrow>
          Inr (\<lparr>LowVal = LowVal origin @ [val startPoint], LowExclude = excl startPoint,
                HighVal = HighVal origin @ [val endPoint], HighExclude = excl endPoint\<rparr>
               # newRanges))"

fun appendIndexRanges :: "IndexRange list \<Rightarrow> rangePoint list \<Rightarrow> IndexRange list result" where
  "appendIndexRanges [] rangePoints = Inr []"
| "appendIndexRanges (oRange # origin) rangePoints =
     (if \<not> IsPoint oRange then
        (case appendIndexRanges origin rangePoints of
           Inl p \<Rightarrow> Inl p
         | Inr newIndexRanges \<Rightarrow> Inr (oRange # newIndexRanges))
      else
        (case appendIndexRange oRange rangePoints of
           Inl p \<Rightarrow> Inl p
         | Inr new \<Rightarrow>
             (case appendIndexRanges origin rangePoints of
                Inl p \<Rightarrow> Inl p
              | Inr newIndexRanges \<Rightarrow> Inr (new @ newIndexRanges))))"

text \<open>
  For stating what \<open>appendIndexRanges\<close> computes: the start/end pairs of a point list,
  and an index range extended by one such pair on a further column.
\<close>

fun pointPairs :: "rangePoint list \<Rightarrow> (rangePoint \<times> rangePoint) list" where
  "pointPairs (s # e # ps) = (s, e) # pointPairs ps"
| "pointPairs ps = []"

definition extendRange :: "IndexRange \<Rightarrow> rangePoint \<times> rangePoint \<Rightarrow> IndexRange" where
  "extendRange origin pr =
     \<lparr>LowVal = LowVal origin @ [val (fst pr)], LowExclude = excl (fst pr),
      HighVal = HighVal origin @ [val (snd pr)], HighExclude = excl (snd pr)\<rparr>"

section \<open>Plans and their alternatives (optimizer/plan/alternatives.go)\<close>

text \<open>
  Modelled from the spec: the catalog records \<open>model.TableInfo\<close> and \<open>model.IndexInfo\<close>
  and the plan nodes, all declared outside the sources at hand. A \<open>Plan\<close> is a Go interface
  value, which may be \<open>nil\<close>; every node other than the two scans carries one source plan.
  The arguments are, in this order: \<open>TableScan\<close> table, handle ranges, fields;
  \<open>IndexScan\<close> index, table, ranges, fields; \<open>Filter\<close> source, conditions;
  \<open>SelectLock\<close> source, lock mode; \<open>SelectFields\<close> source, fields; \<open>Sort\<close> source,
  by-items; \<open>Limit\<close> source, offset, count.
\<close>

record IndexInfo =
  indexName :: string
  indexColumns :: "string list"

record TableInfo =
  tableName :: string
  Indices :: "IndexInfo list"

datatype Plan =
    NilPlan
  | TableScan TableInfo "(int \<times> int) list" "string list"
  | IndexScan IndexInfo TableInfo "IndexRange list" "string list"
  | Filter Plan "ExprNode list"
  | SelectLock Plan nat
  | SelectFields Plan "string list"
  | Sort Plan "ExprNode list"
  | Limit Plan nat nat

text \<open>The interface \<open>WithSrcPlan\<close>: the plans that have a source, with \<open>Src\<close> and \<open>SetSrc\<close>.\<close>

fun isWithSrcPlan :: "Plan \<Rightarrow> bool" where
  "isWithSrcPlan (Filter src conds) = True"
| "isWithSrcPlan (SelectLock src mode) = True"
| "isWithSrcPlan (SelectFields src fs) = True"
| "isWithSrcPlan (Sort src items) = True"
| "isWithSrcPlan (Limit src off cnt) = True"
| "isWithSrcPlan p = False"

fun Src :: "Plan \<Rightarrow> Plan" where
  "Src (Filter src conds) = src"
| "Src (SelectLock src mode) = src"
| "Src (SelectFields src fs) = src"
| "Src (Sort src items) = src"
| "Src (Limit src off cnt) = src"
| "Src p = NilPlan"

fun SetSrc :: "Plan \<Rightarrow> Plan \<Rightarrow> Plan" where
  "SetSrc (Filter src conds) s = Filter s conds"
| "SetSrc (SelectLock src mode) s = SelectLock s mode"
| "SetSrc (SelectFields src fs) s = SelectFields s fs"
| "SetSrc (Sort src items) s = Sort s items"
| "SetSrc (Limit src off cnt) s = Limit s off cnt"
| "SetSrc p s = p"

text \<open>\<open>shallowCopy\<close> copies the node; for a type it does not list, \<open>copied\<close> stays \<open>nil\<close>.\<close>

fun shallowCopy :: "Plan \<Rightarrow> Plan" where
  "shallowCopy (Filter src conds) = Filter src conds"
| "shallowCopy (SelectLock src mode) = SelectLock src mode"
| "shallowCopy (SelectFields src fs) = SelectFields src fs"
| "shallowCopy (Sort src items) = Sort src items"
| "shallowCopy (Limit src off cnt) = Limit src off cnt"
| "shallowCopy p = NilPlan"

text \<open>The local \<open>fullRange\<close> of \<open>tableScanAlternatives\<close>: the index range \<open>[nil, MaxVal]\<close>.\<close>

definition fullIndexRange :: IndexRange where
  "fullIndexRange =
     \<lparr>LowVal = [NilV], LowExclude = False, HighVal = [MaxVal], HighExclude = False\<rparr>"

definition tableScanAlternatives :: "TableInfo \<Rightarrow> string list \<Rightarrow> Plan list" where
  "tableScanAlternatives table fs =
     map (\<lambda>v. IndexScan v table [fullIndexRange] fs) (Indices table)"

text \<open>
  \<open>Alternatives\<close> and \<open>planWithSrcAlternatives\<close>. The function \<open>refine\<close> of package
  \<open>plan\<close> is declared outside the sources at hand and is the parameter \<open>rf\<close>: it works
  on the plan it is given, in place, and \<open>rf p\<close> is that plan afterwards.
  \<open>log.Fatalf\<close> ends the process; it is the left summand.
\<close>

function (sequential) Alternatives :: "(Plan \<Rightarrow> Plan) \<Rightarrow> Plan \<Rightarrow> Plan list result"
  and planWithSrcAlternatives :: "(Plan \<Rightarrow> Plan) \<Rightarrow> Plan \<Rightarrow> Plan list result"
where
  "Alternatives rf NilPlan = Inr []"
| "Alternatives rf (TableScan table ranges fs) = Inr (map rf (tableScanAlternatives table fs))"
| "Alternatives rf (IndexScan v table ranges fs) = Inl ''unknown plan''"
| "Alternatives rf p =
     (case planWithSrcAlternatives rf p of
        Inl f \<Rightarrow> Inl f
      | Inr plans \<Rightarrow> Inr (map rf plans))"
| "planWithSrcAlternatives rf p =
     (if isWithSrcPlan p then
        (case Alternatives rf (Src p) of
           Inl f \<Rightarrow> Inl f
         | Inr srcs \<Rightarrow> Inr (map (\<lambda>v. SetSrc (shallowCopy p) v) srcs))
      else Inl ''not a plan with a source'')"
  by pat_completeness auto

termination
proof (relation "measure (\<lambda>x. case x of Inl (rf, p) \<Rightarrow> 2 * size p
                                      | Inr (rf, p) \<Rightarrow> 2 * size p - 1)")
  fix rf :: "Plan \<Rightarrow> Plan" and p :: Plan
  assume "isWithSrcPlan p"
  then show "(Inl (rf, Src p), Inr (rf, p))
       \<in> measure (\<lambda>x. case x of Inl (rf, p) \<Rightarrow> 2 * size p | Inr (rf, p) \<Rightarrow> 2 * size p - 1)"
    by (cases p) simp_all
qed simp_all

text \<open>
  For stating what \<open>Alternatives\<close> computes: the leaf of a chain, the access path of a
  plan (the table of its leaf scan, and the index when the leaf is an index scan), and
  the chain \<open>p\<close> copied over a new leaf, with \<open>rf\<close> applied to each plan on the way up,
  as \<open>Alternatives\<close> does.
\<close>

fun leaf :: "Plan \<Rightarrow> Plan" where
  "leaf (Filter src conds) = leaf src"
| "leaf (SelectLock src mode) = leaf src"
| "leaf (SelectFields src fs) = leaf src"
| "leaf (Sort src items) = leaf src"
| "leaf (Limit src off cnt) = leaf src"
| "leaf p = p"

definition accessPath :: "Plan \<Rightarrow> (TableInfo \<times> IndexInfo option) option" where
  "accessPath p =
     (case leaf p of
        TableScan table ranges fs \<Rightarrow> Some (table, None)
      | IndexScan v table ranges fs \<Rightarrow> Some (table, Some v)
      | _ \<Rightarrow> None)"

fun overLeaf :: "(Plan \<Rightarrow> Plan) \<Rightarrow> Plan \<Rightarrow> Plan \<Rightarrow> Plan" where
  "overLeaf rf (Filter src conds) l = rf (Filter (overLeaf rf src l) conds)"
| "overLeaf rf (SelectLock src mode) l = rf (SelectLock (overLeaf rf src l) mode)"
| "overLeaf rf (SelectFields src fs) l = rf (SelectFields (overLeaf rf src l) fs)"
| "overLeaf rf (Sort src items) l = rf (Sort (overLeaf rf src l) items)"
| "overLeaf rf (Limit src off cnt) l = rf (Limit (overLeaf rf src l) off cnt)"
| "overLeaf rf p l = rf l"

(*PROPERTIES*)
section \<open>Properties of the point order\<close>

text \<open>
  Claim C8: \<open>rangePointSorter.Less\<close> is a total order on range points in which, at
  equal values, an end precedes a start whenever either of the two is exclusive.
  The code does not give an order. Take the exclusive start \<open>(1\<close> and the inclusive end
  \<open>1]\<close>: the branch for a start followed by an end answers \<open>!b.excl\<close>, so the start
  precedes the end, and the mirrored branch answers \<open>a.excl || b.excl\<close>, so the end
  precedes the start as well.
\<close>

theorem Less_start_excl_end_incl_both_ways:
  "Less \<lparr>val = IntV 1, excl = True, start = True\<rparr> \<lparr>val = IntV 1, excl = False, start = False\<rparr>
     = (True, None)
   \<and> Less \<lparr>val = IntV 1, excl = False, start = False\<rparr> \<lparr>val = IntV 1, excl = True, start = True\<rparr>
     = (True, None)"
  by (simp add: Less_def equalValueLess_def)

section \<open>Properties of merge\<close>

text \<open>
  Claim C7: the output of \<open>merge(a, b, union)\<close> is a fixed point of merging with the
  empty list under union.
  The code breaks this on \<open>a = (1, +inf]\<close> and \<open>b = [-inf, 1]\<close>: the union is
  \<open>[-inf, 1] (1, +inf]\<close>, and merging that with the empty list gives \<open>[-inf, +inf]\<close>,
  because the second sort moves the exclusive start \<open>(1\<close> in front of the inclusive end
  \<open>1]\<close>.
\<close>

theorem merge_union_output_not_fixed_point:
  "merge \<lparr>err = None\<rparr>
     [\<lparr>val = IntV 1, excl = True, start = True\<rparr>, \<lparr>val = MaxVal, excl = False, start = False\<rparr>]
     [\<lparr>val = MinNotNullVal, excl = False, start = True\<rparr>,
      \<lparr>val = IntV 1, excl = False, start = False\<rparr>] True
   = ([\<lparr>val = MinNotNullVal, excl = False, start = True\<rparr>,
       \<lparr>val = IntV 1, excl = False, start = False\<rparr>,
       \<lparr>val = IntV 1, excl = True, start = True\<rparr>,
       \<lparr>val = MaxVal, excl = False, start = False\<rparr>], \<lparr>err = None\<rparr>)
   \<and> merge \<lparr>err = None\<rparr>
       [\<lparr>val = MinNotNullVal, excl = False, start = True\<rparr>,
        \<lparr>val = IntV 1, excl = False, start = False\<rparr>,
        \<lparr>val = IntV 1, excl = True, start = True\<rparr>,
        \<lparr>val = MaxVal, excl = False, start = False\<rparr>] [] True
   = ([\<lparr>val = MinNotNullVal, excl = False, start = True\<rparr>,
       \<lparr>val = MaxVal, excl = False, start = False\<rparr>], \<lparr>err = None\<rparr>)"
  by (simp add: merge_def sortPoints_def Less_def equalValueLess_def)

section \<open>Properties of the range builder\<close>

text \<open>
  Claim C4: for a LIKE pattern whose literal prefix ends at the wildcard \<open>_\<close>, such as
  \<open>'abc_'\<close>, \<open>build\<close> returns the prefix interval with an exclusive start, \<open>(abc, abd)\<close>.
  The code tests for the byte \<open>.\<close> where it should test for \<open>_\<close>: on \<open>'abc_'\<close> the
  underscore is taken into the prefix and the start stays inclusive.
\<close>

theorem build_like_underscore_taken_literally:
  "build \<lparr>err = None\<rparr> (PatternLikeExpr False (ColumnNameExpr ''a'') (ValueExpr (StrV ''abc_'')))
   = Inr ([\<lparr>val = StrV ''abc_'', excl = False, start = True\<rparr>,
           \<lparr>val = StrV [CHR ''a'', CHR ''b'', CHR ''c'', CHR 0x60], excl = True, start = False\<rparr>],
          \<lparr>err = None\<rparr>)"
  by code_simp

text \<open>
  Claim C5: on an expression it does not support, a binary operation with another
  operator included, \<open>build\<close> returns the universal range and never an empty list.
  The code returns \<open>nil\<close> at the end of \<open>buildFromBinop\<close>: for the null-safe comparison
  \<open>a <=> 1\<close> the result is the empty list.
\<close>

theorem build_NullEQ_empty:
  "build \<lparr>err = None\<rparr> (BinaryOperationExpr NullEQ (ColumnNameExpr ''a'') (ValueExpr (IntV 1)))
   = Inr ([], \<lparr>err = None\<rparr>)"
  by (simp add: buildFromCompare_def)

text \<open>
  Claim C6: the list \<open>build\<close> returns is sorted and canonical, with pairwise disjoint
  intervals, also for NOT BETWEEN with swapped bounds.
  The code returns the four points of \<open>a NOT BETWEEN 2 AND 1\<close> as they are written:
  \<open>[-inf, 2) (1, +inf]\<close>, where the start \<open>(1\<close> comes after the end \<open>2)\<close> although it
  sorts strictly before it, and the two intervals overlap.
\<close>

theorem build_not_between_swapped_unsorted:
  "build \<lparr>err = None\<rparr>
     (BetweenExpr True (ColumnNameExpr ''a'') (ValueExpr (IntV 2)) (ValueExpr (IntV 1)))
   = Inr ([\<lparr>val = MinNotNullVal, excl = False, start = True\<rparr>,
           \<lparr>val = IntV 2, excl = True, start = False\<rparr>,
           \<lparr>val = IntV 1, excl = True, start = True\<rparr>,
           \<lparr>val = MaxVal, excl = False, start = False\<rparr>], \<lparr>err = None\<rparr>)
   \<and> Less \<lparr>val = IntV 1, excl = True, start = True\<rparr> \<lparr>val = IntV 2, excl = True, start = False\<rparr>
     = (True, None)
   \<and> Less \<lparr>val = IntV 2, excl = True, start = False\<rparr> \<lparr>val = IntV 1, excl = True, start = True\<rparr>
     = (False, None)"
  by (simp add: buildFromBetween_def Less_def)

section \<open>Properties of appendIndexRanges\<close>

lemma appendIndexRange_even:
  "even (length rangePoints) \<Longrightarrow>
     appendIndexRange origin rangePoints = Inr (map (extendRange origin) (pointPairs rangePoints))"
  by (induction origin rangePoints rule: appendIndexRange.induct)
     (simp_all add: extendRange_def)

text \<open>
  Claim C10: for every list of index ranges and every range-point list of even length,
  \<open>appendIndexRanges\<close> keeps each range that is not a point as it is and where it is,
  and replaces each point range by one extended range per pair of points, which appends
  the pair's start value to \<open>LowVal\<close>, its end value to \<open>HighVal\<close> and takes the pair's
  exclusivity flags.
\<close>

theorem appendIndexRanges_even:
  assumes "even (length rangePoints)"
  shows "appendIndexRanges origin rangePoints =
           Inr (concat (map (\<lambda>oRange. if IsPoint oRange
                                       then map (extendRange oRange) (pointPairs rangePoints)
                                       else [oRange]) origin))"
  using assms by (induction origin) (simp_all add: appendIndexRange_even)

theorem appendIndexRanges_even_witness:
  "even (length [\<lparr>val = IntV 3, excl = False, start = True\<rparr>,
                 \<lparr>val = IntV 4, excl = True, start = False\<rparr>])
   \<and> appendIndexRanges
        [\<lparr>LowVal = [IntV 1], LowExclude = False, HighVal = [IntV 1], HighExclude = False\<rparr>,
         \<lparr>LowVal = [IntV 2], LowExclude = True, HighVal = [MaxVal], HighExclude = False\<rparr>]
        [\<lparr>val = IntV 3, excl = False, start = True\<rparr>,
         \<lparr>val = IntV 4, excl = True, start = False\<rparr>]
      = Inr [\<lparr>LowVal = [IntV 1, IntV 3], LowExclude = False,
               HighVal = [IntV 1, IntV 4], HighExclude = True\<rparr>,
             \<lparr>LowVal = [IntV 2], LowExclude = True, HighVal = [MaxVal], HighExclude = False\<rparr>]"
  using appendIndexRanges_even
    [of "[\<lparr>val = IntV 3, excl = False, start = True\<rparr>,
          \<lparr>val = IntV 4, excl = True, start = False\<rparr>]"
        "[\<lparr>LowVal = [IntV 1], LowExclude = False, HighVal = [IntV 1], HighExclude = False\<rparr>,
          \<lparr>LowVal = [IntV 2], LowExclude = True, HighVal = [MaxVal], HighExclude = False\<rparr>]"]
  by (simp add: IsPoint_def extendRange_def)

section \<open>Properties of Alternatives\<close>

lemma Alternatives_overLeaf:
  "leaf p = TableScan table ranges fs \<Longrightarrow>
     Alternatives rf p =
       Inr (map (\<lambda>v. overLeaf rf p (IndexScan v table [fullIndexRange] fs)) (Indices table))"
  by (induction p) (simp_all add: tableScanAlternatives_def)



lemma leaf_idem: "leaf (leaf p) = leaf p"
  by (induction p) simp_all

lemma accessPath_overLeaf:
  assumes "\<forall>q. accessPath (rf q) = accessPath q"
  shows "accessPath (overLeaf rf p l) = accessPath l"
proof (induction p)
  case (Filter p conds)
  have "accessPath (Filter (overLeaf rf p l) conds) = accessPath (overLeaf rf p l)"
    by (simp add: accessPath_def)
  with Filter assms show ?case by simp
next
  case (SelectLock p mode)
  have "accessPath (SelectLock (overLeaf rf p l) mode) = accessPath (overLeaf rf p l)"
    by (simp add: accessPath_def)
  with SelectLock assms show ?case by simp
next
  case (SelectFields p fs)
  have "accessPath (SelectFields (overLeaf rf p l) fs) = accessPath (overLeaf rf p l)"
    by (simp add: accessPath_def)
  with SelectFields assms show ?case by simp
next
  case (Sort p items)
  have "accessPath (Sort (overLeaf rf p l) items) = accessPath (overLeaf rf p l)"
    by (simp add: accessPath_def)
  with Sort assms show ?case by simp
next
  case (Limit p off cnt)
  have "accessPath (Limit (overLeaf rf p l) off cnt) = accessPath (overLeaf rf p l)"
    by (simp add: accessPath_def)
  with Limit assms show ?case by simp
qed (simp_all add: assms)

text \<open>
  Claim C9: for a chain of plans whose leaf is a table scan on table \<open>T\<close>,
  \<open>Alternatives\<close> returns exactly one plan per index of \<open>T\<close>, in the order of the
  indices: the chain copied over an index scan on that index, which is initialised with
  the single range \<open>[nil, MaxVal]\<close>, and refined on the way up. As long as refining a
  plan keeps its access path (the table and index its leaf scans), each returned plan
  scans its index of \<open>T\<close>, and the original plan, which scans the table, is not among
  the returned plans.
\<close>

theorem Alternatives_of_table_scan_chain:
  assumes "leaf p = TableScan T ranges fs"
  shows "\<exists>alts. Alternatives rf p = Inr alts
           \<and> length alts = length (Indices T)
           \<and> (\<forall>i < length alts.
                 alts ! i = overLeaf rf p (IndexScan (Indices T ! i) T [fullIndexRange] fs))
           \<and> ((\<forall>q. accessPath (rf q) = accessPath q) \<longrightarrow>
                 (\<forall>i < length alts. accessPath (alts ! i) = Some (T, Some (Indices T ! i)))
                 \<and> p \<notin> set alts)"
proof -
  let ?alts = "map (\<lambda>v. overLeaf rf p (IndexScan v T [fullIndexRange] fs)) (Indices T)"
  have 1: "Alternatives rf p = Inr ?alts"
    using assms by (rule Alternatives_overLeaf)
  have 2: "length ?alts = length (Indices T)" by simp
  have 3: "\<forall>i < length ?alts.
             ?alts ! i = overLeaf rf p (IndexScan (Indices T ! i) T [fullIndexRange] fs)"
    by simp
  have 4: "(\<forall>i < length ?alts. accessPath (?alts ! i) = Some (T, Some (Indices T ! i)))
           \<and> p \<notin> set ?alts"
    if H: "\<forall>q. accessPath (rf q) = accessPath q"
  proof
    show a: "\<forall>i < length ?alts. accessPath (?alts ! i) = Some (T, Some (Indices T ! i))"
      by (simp add: accessPath_overLeaf [OF H]) (simp add: accessPath_def)
    have "accessPath p = Some (T, None)"
      using assms by (simp add: accessPath_def)
    moreover have "accessPath q \<noteq> Some (T, None)" if "q \<in> set ?alts" for q
    proof -
      from that obtain i where "i < length ?alts" and "q = ?alts ! i"
        by (metis in_set_conv_nth)
      with a have "accessPath q = Some (T, Some (Indices T ! i))" by blast
      then show ?thesis by simp
    qed
    ultimately show "p \<notin> set ?alts" by blast
  qed
  from 1 2 3 4 show ?thesis by blast
qed

theorem Alternatives_of_table_scan_chain_witness:
  "leaf (Filter (TableScan \<lparr>tableName = ''t'',
                   Indices = [\<lparr>indexName = ''a'', indexColumns = [''a'']\<rparr>,
                              \<lparr>indexName = ''b'', indexColumns = [''b'']\<rparr>]\<rparr> [] [''a''])
           [ColumnNameExpr ''a''])
     = TableScan \<lparr>tableName = ''t'',
                   Indices = [\<lparr>indexName = ''a'', indexColumns = [''a'']\<rparr>,
                              \<lparr>indexName = ''b'', indexColumns = [''b'']\<rparr>]\<rparr> [] [''a'']
   \<and> (\<forall>q. accessPath ((\<lambda>p. p) q) = accessPath q)
   \<and> Alternatives (\<lambda>p. p)
        (Filter (TableScan \<lparr>tableName = ''t'',
                   Indices = [\<lparr>indexName = ''a'', indexColumns = [''a'']\<rparr>,
                              \<lparr>indexName = ''b'', indexColumns = [''b'']\<rparr>]\<rparr> [] [''a''])
           [ColumnNameExpr ''a''])
     = Inr [Filter (IndexScan \<lparr>indexName = ''a'', indexColumns = [''a'']\<rparr>
                      \<lparr>tableName = ''t'',
                        Indices = [\<lparr>indexName = ''a'', indexColumns = [''a'']\<rparr>,
                                   \<lparr>indexName = ''b'', indexColumns = [''b'']\<rparr>]\<rparr>
                      [fullIndexRange] [''a'']) [ColumnNameExpr ''a''],
            Filter (IndexScan \<lparr>indexName = ''b'', indexColumns = [''b'']\<rparr>
                      \<lparr>tableName = ''t'',
                        Indices = [\<lparr>indexName = ''a'', indexColumns = [''a'']\<rparr>,
                                   \<lparr>indexName = ''b'', indexColumns = [''b'']\<rparr>]\<rparr>
                      [fullIndexRange] [''a'']) [ColumnNameExpr ''a'']]"
proof -
  let ?T = "\<lparr>tableName = ''t'',
              Indices = [\<lparr>indexName = ''a'', indexColumns = [''a'']\<rparr>,
                         \<lparr>indexName = ''b'', indexColumns = [''b'']\<rparr>]\<rparr>"
  let ?p = "Filter (TableScan ?T [] [''a'']) [ColumnNameExpr ''a'']"
  have l: "leaf ?p = TableScan ?T [] [''a'']" by simp
  obtain alts where a: "Alternatives (\<lambda>p. p) ?p = Inr alts"
    and n: "length alts = length (Indices ?T)"
    and e: "\<forall>i < length alts.
              alts ! i = overLeaf (\<lambda>p. p) ?p (IndexScan (Indices ?T ! i) ?T [fullIndexRange] [''a''])"
    using Alternatives_of_table_scan_chain [OF l, of "\<lambda>p. p"] by blast
  from n have n2: "length alts = 2" by simp
  from e n2 have "alts ! 0 = overLeaf (\<lambda>p. p) ?p (IndexScan (Indices ?T ! 0) ?T [fullIndexRange] [''a''])"
    and "alts ! 1 = overLeaf (\<lambda>p. p) ?p (IndexScan (Indices ?T ! 1) ?T [fullIndexRange] [''a''])"
    by simp_all
  then have e0: "alts ! 0 = Filter (IndexScan \<lparr>indexName = ''a'', indexColumns = [''a'']\<rparr> ?T
                                     [fullIndexRange] [''a'']) [ColumnNameExpr ''a'']"
    and e1: "alts ! 1 = Filter (IndexScan \<lparr>indexName = ''b'', indexColumns = [''b'']\<rparr> ?T
                                  [fullIndexRange] [''a'']) [ColumnNameExpr ''a'']"
    by simp_all
  have "alts = [alts ! 0, alts ! 1]"
    using n2 by (cases alts; cases "tl alts") auto
  with e0 e1 a l show ?thesis by simp
qed

end
